theory Spec2Isabelle
  imports Complex_Main "HOL-Library.Word" "HOL-Library.Multiset"
begin

section \<open>The keyframe of the map: a shallow embedding of \<^verbatim>\<open>keyframe.cc\<close>\<close>

text \<open>
  A keyframe owns its pose, its per-feature landmark slots and two erasure flags. Landmarks,
  the covisibility graph node, the map database and the bag-of-words database are other
  classes; the keyframe only calls them. They are kept abstract here: their observers and
  mutators are the fields of a record of functions over an arbitrary world state \<open>'w\<close>, so
  every theorem below holds for whatever those classes do.

  Numbers: Eigen's \<^verbatim>\<open>double\<close> and the \<^verbatim>\<open>float\<close> depths are modelled by \<^typ>\<open>real\<close>, with exact
  arithmetic (rounding is not modelled). A \<^verbatim>\<open>shared_ptr\<close> to a landmark is a handle
  (\<^typ>\<open>nat\<close>) or \<open>None\<close> for \<^verbatim>\<open>nullptr\<close>; a pointer to a keyframe is the keyframe's id.

  Identifiers: both constructors take the id as \<^verbatim>\<open>unsigned int\<close> and store it in \<^verbatim>\<open>id_\<close>, so
  the id of a keyframe is a 32-bit word; the \<^verbatim>\<open>id_\<close> of a landmark, declared in a header that
  is not among the sources, is taken to have the same type. \<^verbatim>\<open>int\<close> has 32 bits too, and a
  conversion between the two keeps the bits.

  Modelled from the spec: the members declared in the headers, which are not among the
  sources. Two keyframes are the same keyframe when their ids are equal (\<^verbatim>\<open>operator==\<close>);
  a new keyframe is neither pinned nor erased.
\<close>

subsection \<open>Errors and checked vector access\<close>

datatype error = Out_of_range

text \<open>\<^verbatim>\<open>std::vector::at\<close>: a checked read, and a checked write through the returned reference.\<close>

definition vector_at :: "'a list \<Rightarrow> nat \<Rightarrow> error + 'a" where
  "vector_at xs i = (if i < length xs then Inr (xs ! i) else Inl Out_of_range)"

definition vector_at_assign :: "'a list \<Rightarrow> nat \<Rightarrow> 'a \<Rightarrow> error + 'a list" where
  "vector_at_assign xs i v = (if i < length xs then Inr (xs[i := v]) else Inl Out_of_range)"

subsection \<open>Vectors and matrices (Eigen)\<close>

type_synonym vec3 = "real \<times> real \<times> real"
type_synonym vec4 = "real \<times> real \<times> real \<times> real"
type_synonym mat33 = "vec3 \<times> vec3 \<times> vec3"
type_synonym mat44 = "vec4 \<times> vec4 \<times> vec4 \<times> vec4"

text \<open>Matrices are stored by rows. \<open>block33\<close> is \<^verbatim>\<open>block<3, 3>(0, 0)\<close>, \<open>block31\<close> is
  \<^verbatim>\<open>block<3, 1>(0, 3)\<close>, \<open>block13_row2\<close> is \<^verbatim>\<open>block<1, 3>(2, 0)\<close> and \<open>coeff23\<close> is \<^verbatim>\<open>(2, 3)\<close>.\<close>

fun block33 :: "mat44 \<Rightarrow> mat33" where
  "block33 ((a00, a01, a02, a03), (a10, a11, a12, a13), (a20, a21, a22, a23), r3) =
     ((a00, a01, a02), (a10, a11, a12), (a20, a21, a22))"

fun block31 :: "mat44 \<Rightarrow> vec3" where
  "block31 ((a00, a01, a02, a03), (a10, a11, a12, a13), (a20, a21, a22, a23), r3) =
     (a03, a13, a23)"

fun block13_row2 :: "mat44 \<Rightarrow> vec3" where
  "block13_row2 (r0, r1, (a20, a21, a22, a23), r3) = (a20, a21, a22)"

fun coeff23 :: "mat44 \<Rightarrow> real" where
  "coeff23 (r0, r1, (a20, a21, a22, a23), r3) = a23"

fun bottom_row :: "mat44 \<Rightarrow> vec4" where
  "bottom_row (r0, r1, r2, r3) = r3"

fun transpose33 :: "mat33 \<Rightarrow> mat33" where
  "transpose33 ((a00, a01, a02), (a10, a11, a12), (a20, a21, a22)) =
     ((a00, a10, a20), (a01, a11, a21), (a02, a12, a22))"

fun uminus_vec3 :: "vec3 \<Rightarrow> vec3" where
  "uminus_vec3 (x, y, z) = (- x, - y, - z)"

fun uminus_mat33 :: "mat33 \<Rightarrow> mat33" where
  "uminus_mat33 (r0, r1, r2) = (uminus_vec3 r0, uminus_vec3 r1, uminus_vec3 r2)"

fun dot :: "vec3 \<Rightarrow> vec3 \<Rightarrow> real" where
  "dot (x, y, z) (x', y', z') = x * x' + y * y' + z * z'"

fun mat33_times_vec3 :: "mat33 \<Rightarrow> vec3 \<Rightarrow> vec3" where
  "mat33_times_vec3 (r0, r1, r2) v = (dot r0 v, dot r1 v, dot r2 v)"

definition mat33_identity :: mat33 where
  "mat33_identity = ((1, 0, 0), (0, 1, 0), (0, 0, 1))"

definition mat44_identity :: mat44 where
  "mat44_identity = ((1, 0, 0, 0), (0, 1, 0, 0), (0, 0, 1, 0), (0, 0, 0, 1))"

definition mat44_zero :: mat44 where
  "mat44_zero = ((0, 0, 0, 0), (0, 0, 0, 0), (0, 0, 0, 0), (0, 0, 0, 0))"

text \<open>Assignment to \<^verbatim>\<open>block<3, 3>(0, 0)\<close> and to \<^verbatim>\<open>block<3, 1>(0, 3)\<close> of a 4x4 matrix.\<close>

fun assign_block33 :: "mat44 \<Rightarrow> mat33 \<Rightarrow> mat44" where
  "assign_block33 ((a00, a01, a02, a03), (a10, a11, a12, a13), (a20, a21, a22, a23), r3)
       ((b00, b01, b02), (b10, b11, b12), (b20, b21, b22)) =
     ((b00, b01, b02, a03), (b10, b11, b12, a13), (b20, b21, b22, a23), r3)"

fun assign_block31 :: "mat44 \<Rightarrow> vec3 \<Rightarrow> mat44" where
  "assign_block31 ((a00, a01, a02, a03), (a10, a11, a12, a13), (a20, a21, a22, a23), r3)
       (x, y, z) =
     ((a00, a01, a02, x), (a10, a11, a12, y), (a20, a21, a22, z), r3)"

text \<open>Notions of the specification only: the matrix products and orthonormality, used to say
  what an inverse is.\<close>

fun mat33_times :: "mat33 \<Rightarrow> mat33 \<Rightarrow> mat33" where
  "mat33_times (r0, r1, r2) B =
     (case transpose33 B of (c0, c1, c2) \<Rightarrow>
        ((dot r0 c0, dot r0 c1, dot r0 c2),
         (dot r1 c0, dot r1 c1, dot r1 c2),
         (dot r2 c0, dot r2 c1, dot r2 c2)))"

fun dot4 :: "vec4 \<Rightarrow> vec4 \<Rightarrow> real" where
  "dot4 (x, y, z, u) (x', y', z', u') = x * x' + y * y' + z * z' + u * u'"

fun transpose44 :: "mat44 \<Rightarrow> mat44" where
  "transpose44 ((a00, a01, a02, a03), (a10, a11, a12, a13), (a20, a21, a22, a23),
       (a30, a31, a32, a33)) =
     ((a00, a10, a20, a30), (a01, a11, a21, a31), (a02, a12, a22, a32), (a03, a13, a23, a33))"

fun mat44_times :: "mat44 \<Rightarrow> mat44 \<Rightarrow> mat44" where
  "mat44_times (r0, r1, r2, r3) B =
     (case transpose44 B of (c0, c1, c2, c3) \<Rightarrow>
        ((dot4 r0 c0, dot4 r0 c1, dot4 r0 c2, dot4 r0 c3),
         (dot4 r1 c0, dot4 r1 c1, dot4 r1 c2, dot4 r1 c3),
         (dot4 r2 c0, dot4 r2 c1, dot4 r2 c2, dot4 r2 c3),
         (dot4 r3 c0, dot4 r3 c1, dot4 r3 c2, dot4 r3 c3)))"

definition orthonormal :: "mat33 \<Rightarrow> bool" where
  "orthonormal R \<longleftrightarrow>
     mat33_times (transpose33 R) R = mat33_identity \<and>
     mat33_times R (transpose33 R) = mat33_identity"

subsection \<open>The keyframe and the frame it can be built from\<close>

type_synonym keyframe_id = "32 word"
type_synonym landmark_ref = nat
type_synonym landmark_ptr = "landmark_ref option"

text \<open>Of \<^verbatim>\<open>frame_observation\<close> only the keypoint count matters to the slot sequence; the
  keypoints, descriptors and stereo values it also carries are never indexed by this file.\<close>

record frame_observation =
  num_keypts :: nat

record frame =
  frm_timestamp :: real
  frm_frm_obs :: frame_observation
  frm_landmarks :: "landmark_ptr list"
  frm_pose_cw :: mat44

text \<open>The camera, the ORB parameters, the bag-of-words vectors and the markers are members
  too; no operation modelled here reads or writes them.\<close>

record keyframe =
  kf_id :: keyframe_id
  timestamp :: real
  frm_obs :: frame_observation
  landmarks :: "landmark_ptr list"
  pose_cw :: mat44
  pose_wc :: mat44
  trans_wc :: vec3
  cannot_be_erased :: bool
  will_be_erased :: bool

subsection \<open>Pose\<close>

text \<open>\<^verbatim>\<open>set_pose_cw\<close> holds \<^verbatim>\<open>mtx_pose_\<close> for its whole body, so the three assignments are one
  step of the state. \<^verbatim>\<open>-rot_wc * trans_cw\<close> negates the matrix first.\<close>

definition set_pose_cw :: "mat44 \<Rightarrow> keyframe \<Rightarrow> keyframe" where
  "set_pose_cw T kf =
     (let rot_cw = block33 T;
          trans_cw = block31 T;
          rot_wc = transpose33 rot_cw;
          t_wc = mat33_times_vec3 (uminus_mat33 rot_wc) trans_cw;
          p_wc = assign_block31 (assign_block33 mat44_identity rot_wc) t_wc
      in kf\<lparr>pose_cw := T, trans_wc := t_wc, pose_wc := p_wc\<rparr>)"

definition get_pose_cw :: "keyframe \<Rightarrow> mat44" where
  "get_pose_cw kf = pose_cw kf"

definition get_pose_wc :: "keyframe \<Rightarrow> mat44" where
  "get_pose_wc kf = pose_wc kf"

definition get_trans_wc :: "keyframe \<Rightarrow> vec3" where
  "get_trans_wc kf = trans_wc kf"

definition get_rot_cw :: "keyframe \<Rightarrow> mat33" where
  "get_rot_cw kf = block33 (pose_cw kf)"

definition get_trans_cw :: "keyframe \<Rightarrow> vec3" where
  "get_trans_cw kf = block31 (pose_cw kf)"

subsection \<open>Construction\<close>

text \<open>Both constructors fill the members and then call \<^verbatim>\<open>set_pose_cw\<close>, which overwrites the
  three pose members; the zero matrices below stand for Eigen's uninitialised storage and
  are never read. The frame is read through its members \<^verbatim>\<open>timestamp_\<close> and \<^verbatim>\<open>frm_obs_\<close> and
  through \<^verbatim>\<open>get_landmarks()\<close> and \<^verbatim>\<open>get_pose_cw()\<close>.\<close>

definition keyframe_from_frame :: "keyframe_id \<Rightarrow> frame \<Rightarrow> keyframe" where
  "keyframe_from_frame i frm =
     set_pose_cw (frm_pose_cw frm)
       \<lparr>kf_id = i, timestamp = frm_timestamp frm, frm_obs = frm_frm_obs frm,
        landmarks = frm_landmarks frm,
        pose_cw = mat44_zero, pose_wc = mat44_zero, trans_wc = (0, 0, 0),
        cannot_be_erased = False, will_be_erased = False\<rparr>"

definition keyframe_from_fields ::
    "keyframe_id \<Rightarrow> real \<Rightarrow> mat44 \<Rightarrow> frame_observation \<Rightarrow> keyframe" where
  "keyframe_from_fields i ts pose obs =
     set_pose_cw pose
       \<lparr>kf_id = i, timestamp = ts, frm_obs = obs,
        landmarks = replicate (num_keypts obs) None,
        pose_cw = mat44_zero, pose_wc = mat44_zero, trans_wc = (0, 0, 0),
        cannot_be_erased = False, will_be_erased = False\<rparr>"

subsection \<open>The other classes the keyframe calls\<close>

text \<open>
  The world \<open>'w\<close> is everything outside this keyframe: the landmarks, the graph nodes, the
  map database and the bag-of-words database. An observer reads the world; a mutator
  returns the new one. Where the source passes \<^verbatim>\<open>shared_from_this()\<close>, or calls the graph
  node (which knows its owner), the mutator receives the keyframe as it is at that moment,
  so what the callee can see of the keyframe is part of the model. No callee writes to this
  keyframe: \<^verbatim>\<open>mtx_observations_\<close> is held around the calls and is not recursive.
  The map database's \<^verbatim>\<open>origin_keyfrm_\<close> is dereferenced without a test; the model takes a
  database that has an origin.
\<close>

record 'w collaborators =
  lm_id :: "'w \<Rightarrow> landmark_ref \<Rightarrow> 32 word"
  lm_will_be_erased :: "'w \<Rightarrow> landmark_ref \<Rightarrow> bool"
  lm_get_pos_in_world :: "'w \<Rightarrow> landmark_ref \<Rightarrow> vec3"
  lm_get_index_in_keyframe :: "'w \<Rightarrow> landmark_ref \<Rightarrow> keyframe_id \<Rightarrow> int"
  lm_add_observation :: "landmark_ref \<Rightarrow> keyframe \<Rightarrow> nat \<Rightarrow> 'w \<Rightarrow> 'w"
  lm_erase_observation :: "landmark_ref \<Rightarrow> keyframe \<Rightarrow> 'w \<Rightarrow> 'w"
  lm_compute_descriptor :: "landmark_ref \<Rightarrow> 'w \<Rightarrow> 'w"
  lm_update_mean_normal_and_obs_scale_variance :: "landmark_ref \<Rightarrow> 'w \<Rightarrow> 'w"
  gn_has_loop_edge :: "'w \<Rightarrow> keyframe_id \<Rightarrow> bool"
  gn_get_spanning_parent :: "'w \<Rightarrow> keyframe_id \<Rightarrow> keyframe_id option"
  gn_get_spanning_children :: "'w \<Rightarrow> keyframe_id \<Rightarrow> keyframe_id list"
  gn_get_loop_edges :: "'w \<Rightarrow> keyframe_id \<Rightarrow> keyframe_id list"
  gn_erase_all_connections :: "keyframe \<Rightarrow> 'w \<Rightarrow> 'w"
  gn_recover_spanning_connections :: "keyframe \<Rightarrow> 'w \<Rightarrow> 'w"
  map_origin_keyfrm :: "'w \<Rightarrow> keyframe_id"
  map_replace_reference_keyframe :: "keyframe \<Rightarrow> keyframe_id option \<Rightarrow> 'w \<Rightarrow> 'w"
  map_erase_keyframe :: "keyframe \<Rightarrow> 'w \<Rightarrow> 'w"
  bow_erase_keyframe :: "keyframe \<Rightarrow> 'w \<Rightarrow> 'w"

subsection \<open>Landmark slots\<close>

definition add_landmark :: "landmark_ptr \<Rightarrow> nat \<Rightarrow> keyframe \<Rightarrow> error + keyframe" where
  "add_landmark lm idx kf =
     (case vector_at_assign (landmarks kf) idx lm of
        Inl e \<Rightarrow> Inl e
      | Inr lms \<Rightarrow> Inr (kf\<lparr>landmarks := lms\<rparr>))"

definition erase_landmark_with_index :: "nat \<Rightarrow> keyframe \<Rightarrow> error + keyframe" where
  "erase_landmark_with_index idx kf =
     (case vector_at_assign (landmarks kf) idx None of
        Inl e \<Rightarrow> Inl e
      | Inr lms \<Rightarrow> Inr (kf\<lparr>landmarks := lms\<rparr>))"

text \<open>The index the landmark reports is an \<^verbatim>\<open>int\<close>; it is cast to \<^verbatim>\<open>unsigned int\<close> only
  after the test \<^verbatim>\<open>0 <= idx\<close>, so the cast keeps its value.\<close>

definition erase_landmark ::
    "'w collaborators \<Rightarrow> 'w \<Rightarrow> landmark_ref \<Rightarrow> keyframe \<Rightarrow> error + keyframe" where
  "erase_landmark ifc w lm kf =
     (let idx = lm_get_index_in_keyframe ifc w lm (kf_id kf)
      in if 0 \<le> idx then
           (case vector_at_assign (landmarks kf) (nat idx) None of
              Inl e \<Rightarrow> Inl e
            | Inr lms \<Rightarrow> Inr (kf\<lparr>landmarks := lms\<rparr>))
         else Inr kf)"


definition get_landmarks :: "keyframe \<Rightarrow> landmark_ptr list" where
  "get_landmarks kf = landmarks kf"

text \<open>The loop of \<^verbatim>\<open>update_landmarks\<close>, from slot \<open>idx\<close> on; the list is the rest of the slots.\<close>

fun update_landmarks_loop ::
    "'w collaborators \<Rightarrow> keyframe \<Rightarrow> nat \<Rightarrow> landmark_ptr list \<Rightarrow> 'w \<Rightarrow> 'w" where
  "update_landmarks_loop ifc kf idx [] w = w"
| "update_landmarks_loop ifc kf idx (None # lms) w =
     update_landmarks_loop ifc kf (Suc idx) lms w"
| "update_landmarks_loop ifc kf idx (Some l # lms) w =
     (if lm_will_be_erased ifc w l then update_landmarks_loop ifc kf (Suc idx) lms w
      else
        let w1 = lm_add_observation ifc l kf idx w;
            w2 = lm_update_mean_normal_and_obs_scale_variance ifc l w1;
            w3 = lm_compute_descriptor ifc l w2
        in update_landmarks_loop ifc kf (Suc idx) lms w3)"

definition update_landmarks :: "'w collaborators \<Rightarrow> keyframe \<Rightarrow> 'w \<Rightarrow> keyframe \<times> 'w" where
  "update_landmarks ifc kf w = (kf, update_landmarks_loop ifc kf 0 (landmarks kf) w)"

fun get_valid_landmarks_loop ::
    "'w collaborators \<Rightarrow> 'w \<Rightarrow> landmark_ptr list \<Rightarrow> landmark_ref set \<Rightarrow> landmark_ref set" where
  "get_valid_landmarks_loop ifc w [] valid = valid"
| "get_valid_landmarks_loop ifc w (None # lms) valid = get_valid_landmarks_loop ifc w lms valid"
| "get_valid_landmarks_loop ifc w (Some l # lms) valid =
     (if lm_will_be_erased ifc w l then get_valid_landmarks_loop ifc w lms valid
      else get_valid_landmarks_loop ifc w lms (insert l valid))"

definition get_valid_landmarks :: "'w collaborators \<Rightarrow> 'w \<Rightarrow> keyframe \<Rightarrow> landmark_ref set" where
  "get_valid_landmarks ifc w kf = get_valid_landmarks_loop ifc w (landmarks kf) {}"

subsection \<open>Median depth\<close>

text \<open>The loop pushes one depth per slot that holds a pointer; \<open>rz\<close> is the z row of the
  rotation and \<open>tz\<close> the z translation of the camera-from-world pose.\<close>

fun collect_depths ::
    "'w collaborators \<Rightarrow> 'w \<Rightarrow> vec3 \<Rightarrow> real \<Rightarrow> bool \<Rightarrow> landmark_ptr list \<Rightarrow> real list \<Rightarrow> real list" where
  "collect_depths ifc w rz tz use_abs [] depths = depths"
| "collect_depths ifc w rz tz use_abs (None # lms) depths =
     collect_depths ifc w rz tz use_abs lms depths"
| "collect_depths ifc w rz tz use_abs (Some l # lms) depths =
     (let pos_w = lm_get_pos_in_world ifc w l;
          pos_c_z = dot rz pos_w + tz
      in collect_depths ifc w rz tz use_abs lms
           (depths @ [if use_abs then \<bar>pos_c_z\<bar> else pos_c_z]))"

text \<open>\<^verbatim>\<open>(depths.size() - 1) / 2\<close> is computed in \<^verbatim>\<open>size_t\<close> (64 bits): for an empty vector the
  subtraction wraps.\<close>

definition median_index :: "nat \<Rightarrow> nat" where
  "median_index n = unat (((word_of_nat n :: 64 word) - 1) div 2)"

definition compute_median_depth ::
    "'w collaborators \<Rightarrow> 'w \<Rightarrow> bool \<Rightarrow> keyframe \<Rightarrow> error + real" where
  "compute_median_depth ifc w use_abs kf =
     (let lms = landmarks kf;
          T = pose_cw kf;
          rot_cw_z_row = block13_row2 T;
          trans_cw_z = coeff23 T;
          depths = collect_depths ifc w rot_cw_z_row trans_cw_z use_abs lms [];
          sorted_depths = sort depths
      in vector_at sorted_depths (median_index (length sorted_depths)))"

subsection \<open>Erasure flags and the erasure protocol\<close>

definition set_not_to_be_erased :: "keyframe \<Rightarrow> keyframe" where
  "set_not_to_be_erased kf = kf\<lparr>cannot_be_erased := True\<rparr>"

definition set_to_be_erased :: "'w collaborators \<Rightarrow> 'w \<Rightarrow> keyframe \<Rightarrow> keyframe" where
  "set_to_be_erased ifc w kf =
     (if \<not> gn_has_loop_edge ifc w (kf_id kf) then kf\<lparr>cannot_be_erased := False\<rparr> else kf)"

text \<open>Step 2 of \<^verbatim>\<open>prepare_for_erasing\<close>: the loop over the slots.\<close>

fun erase_observations_loop ::
    "'w collaborators \<Rightarrow> keyframe \<Rightarrow> landmark_ptr list \<Rightarrow> 'w \<Rightarrow> 'w" where
  "erase_observations_loop ifc kf [] w = w"
| "erase_observations_loop ifc kf (None # lms) w = erase_observations_loop ifc kf lms w"
| "erase_observations_loop ifc kf (Some l # lms) w =
     (if lm_will_be_erased ifc w l then erase_observations_loop ifc kf lms w
      else
        let w1 = lm_erase_observation ifc l kf w;
            w2 = (if \<not> lm_will_be_erased ifc w1 l
                  then lm_update_mean_normal_and_obs_scale_variance ifc l
                         (lm_compute_descriptor ifc l w1)
                  else w1)
        in erase_observations_loop ifc kf lms w2)"

definition prepare_for_erasing ::
    "'w collaborators \<Rightarrow> keyframe \<Rightarrow> 'w \<Rightarrow> keyframe \<times> 'w" where
  "prepare_for_erasing ifc kf w =
     (if kf_id kf = map_origin_keyfrm ifc w then (kf, w)
      else if cannot_be_erased kf then (kf, w)
      else
        let kf1 = kf\<lparr>will_be_erased := True\<rparr>;
            w2 = erase_observations_loop ifc kf1 (landmarks kf1) w;
            w3 = gn_erase_all_connections ifc kf1 w2;
            w4 = gn_recover_spanning_connections ifc kf1 w3;
            w5 = map_replace_reference_keyframe ifc kf1
                   (gn_get_spanning_parent ifc w4 (kf_id kf1)) w4;
            w6 = map_erase_keyframe ifc kf1 w5;
            w7 = bow_erase_keyframe ifc kf1 w6
        in (kf1, w7))"

subsection \<open>Serialisation\<close>

text \<open>The fields of the record that depend on the slots and on the graph node, with the
  timestamp, the pose blocks and the keypoint count; the camera and feature-set names, the
  keypoints and the descriptors are copied from members that are not modelled.\<close>

record keyframe_json =
  json_ts :: real
  json_rot_cw :: mat33
  json_trans_cw :: vec3
  json_n_keypts :: nat
  json_lm_ids :: "int list"
  json_span_parent :: int
  json_span_children :: "int list"
  json_loop_edges :: "int list"

text \<open>The first loop of \<^verbatim>\<open>to_json\<close>, over the indices still to visit; both vectors are read
  and written with \<^verbatim>\<open>at\<close>. The ids go into a \<^verbatim>\<open>std::vector<int>\<close>: the unsigned id is
  converted to \<^verbatim>\<open>int\<close>, which \<open>sint\<close> reads off the same 32 bits.\<close>

fun landmark_ids_loop ::
    "'w collaborators \<Rightarrow> 'w \<Rightarrow> landmark_ptr list \<Rightarrow> nat list \<Rightarrow> int list \<Rightarrow> error + int list" where
  "landmark_ids_loop ifc w lms [] ids = Inr ids"
| "landmark_ids_loop ifc w lms (i # rest) ids =
     (case vector_at lms i of
        Inl e \<Rightarrow> Inl e
      | Inr None \<Rightarrow> landmark_ids_loop ifc w lms rest ids
      | Inr (Some l) \<Rightarrow>
          if lm_will_be_erased ifc w l then landmark_ids_loop ifc w lms rest ids
          else
            (case vector_at_assign ids i (sint (lm_id ifc w l)) of
               Inl e \<Rightarrow> Inl e
             | Inr ids' \<Rightarrow> landmark_ids_loop ifc w lms rest ids'))"

text \<open>The ids of the children and of the loop-edge partners are pushed into vectors of
  \<^verbatim>\<open>int\<close>. The parent id is the value of \<^verbatim>\<open>spanning_parent ? spanning_parent->id_ : -1\<close>: its two
  branches are an \<^verbatim>\<open>unsigned int\<close> and an \<^verbatim>\<open>int\<close>, so the conditional has type \<^verbatim>\<open>unsigned int\<close>
  and the \<open>-1\<close> is converted to it; the record holds that unsigned number.\<close>

definition to_json :: "'w collaborators \<Rightarrow> 'w \<Rightarrow> keyframe \<Rightarrow> error + keyframe_json" where
  "to_json ifc w kf =
     (let landmark_ids = replicate (length (landmarks kf)) (- 1)
      in case landmark_ids_loop ifc w (landmarks kf) [0..<length landmark_ids] landmark_ids of
           Inl e \<Rightarrow> Inl e
         | Inr lm_ids \<Rightarrow>
             let spanning_parent = gn_get_spanning_parent ifc w (kf_id kf);
                 spanning_child_ids = map sint (gn_get_spanning_children ifc w (kf_id kf));
                 loop_edge_ids = map sint (gn_get_loop_edges ifc w (kf_id kf));
                 span_parent = (case spanning_parent of Some p \<Rightarrow> p | None \<Rightarrow> (- 1 :: 32 word))
             in Inr \<lparr>json_ts = timestamp kf,
                     json_rot_cw = block33 (pose_cw kf),
                     json_trans_cw = block31 (pose_cw kf),
                     json_n_keypts = num_keypts (frm_obs kf),
                     json_lm_ids = lm_ids,
                     json_span_parent = uint span_parent,
                     json_span_children = spanning_child_ids,
                     json_loop_edges = loop_edge_ids\<rparr>)"

section \<open>What the specification says, in its own words\<close>

text \<open>The data-model invariant: one landmark slot per feature observation; and the same
  equality for a frame, which the constructor from a frame does not check.\<close>

definition slots_match_observations :: "keyframe \<Rightarrow> bool" where
  "slots_match_observations kf \<longleftrightarrow> length (landmarks kf) = num_keypts (frm_obs kf)"

definition frame_slots_match_observations :: "frame \<Rightarrow> bool" where
  "frame_slots_match_observations frm \<longleftrightarrow>
     length (frm_landmarks frm) = num_keypts (frm_frm_obs frm)"

text \<open>The landmarks in the slots that hold a pointer, in slot order, and the depth of one
  landmark along the optical axis: rotation row z times position, plus translation z.\<close>

definition occupied_slots :: "landmark_ptr list \<Rightarrow> landmark_ref list" where
  "occupied_slots lms = map the (filter (\<lambda>slot. slot \<noteq> None) lms)"

definition depth_of ::
    "'w collaborators \<Rightarrow> 'w \<Rightarrow> bool \<Rightarrow> keyframe \<Rightarrow> landmark_ref \<Rightarrow> real" where
  "depth_of ifc w use_abs kf l =
     (let z = dot (block13_row2 (pose_cw kf)) (lm_get_pos_in_world ifc w l) + coeff23 (pose_cw kf)
      in if use_abs then \<bar>z\<bar> else z)"

text \<open>The landmark id the record carries for one slot, and a slot that holds a landmark
  which is not being erased.\<close>

definition live_slot :: "'w collaborators \<Rightarrow> 'w \<Rightarrow> landmark_ptr \<Rightarrow> bool" where
  "live_slot ifc w slot =
     (case slot of None \<Rightarrow> False | Some l \<Rightarrow> \<not> lm_will_be_erased ifc w l)"


definition slot_id :: "'w collaborators \<Rightarrow> 'w \<Rightarrow> landmark_ptr \<Rightarrow> int" where
  "slot_id ifc w slot =
     (case slot of
        None \<Rightarrow> - 1
      | Some l \<Rightarrow> if lm_will_be_erased ifc w l then - 1 else sint (lm_id ifc w l))"

text \<open>The five steps of the erasure protocol, as section 4.1 of the specification lists them.\<close>

definition erasure_step1 :: "keyframe \<Rightarrow> keyframe" where
  "erasure_step1 kf = kf\<lparr>will_be_erased := True\<rparr>"

definition detach_slot :: "'w collaborators \<Rightarrow> keyframe \<Rightarrow> 'w \<Rightarrow> landmark_ptr \<Rightarrow> 'w" where
  "detach_slot ifc kf w slot =
     (case slot of
        None \<Rightarrow> w
      | Some l \<Rightarrow>
          if lm_will_be_erased ifc w l then w
          else
            let removed = lm_erase_observation ifc l kf w
            in if lm_will_be_erased ifc removed l then removed
               else lm_update_mean_normal_and_obs_scale_variance ifc l
                      (lm_compute_descriptor ifc l removed))"

definition erasure_step2 :: "'w collaborators \<Rightarrow> keyframe \<Rightarrow> 'w \<Rightarrow> 'w" where
  "erasure_step2 ifc kf w = foldl (detach_slot ifc kf) w (landmarks kf)"

definition erasure_step3 :: "'w collaborators \<Rightarrow> keyframe \<Rightarrow> 'w \<Rightarrow> 'w" where
  "erasure_step3 ifc kf w =
     gn_recover_spanning_connections ifc kf (gn_erase_all_connections ifc kf w)"

definition erasure_step4 :: "'w collaborators \<Rightarrow> keyframe \<Rightarrow> 'w \<Rightarrow> 'w" where
  "erasure_step4 ifc kf w =
     map_erase_keyframe ifc kf
       (map_replace_reference_keyframe ifc kf (gn_get_spanning_parent ifc w (kf_id kf)) w)"

definition erasure_step5 :: "'w collaborators \<Rightarrow> keyframe \<Rightarrow> 'w \<Rightarrow> 'w" where
  "erasure_step5 ifc kf w = bow_erase_keyframe ifc kf w"

definition erasure_protocol :: "'w collaborators \<Rightarrow> keyframe \<Rightarrow> 'w \<Rightarrow> keyframe \<times> 'w" where
  "erasure_protocol ifc kf w =
     (let kf1 = erasure_step1 kf
      in (kf1, erasure_step5 ifc kf1 (erasure_step4 ifc kf1
                 (erasure_step3 ifc kf1 (erasure_step2 ifc kf1 w)))))"

text \<open>A slot operation keeps the slot count when it changes neither the length of the slot
  sequence nor the observation set.\<close>

definition keeps_slot_count :: "keyframe \<Rightarrow> keyframe \<Rightarrow> bool" where
  "keeps_slot_count kf kf' \<longleftrightarrow>
     length (landmarks kf') = length (landmarks kf) \<and> frm_obs kf' = frm_obs kf"

text \<open>A rigid transform in block form, rotation \<open>R\<close> and translation \<open>t\<close> over the bottom row
  \<open>(0, 0, 0, 1)\<close>, and the sum of two vectors.\<close>

definition rigid :: "mat33 \<Rightarrow> vec3 \<Rightarrow> mat44" where
  "rigid R t = assign_block31 (assign_block33 mat44_identity R) t"

fun plus_vec3 :: "vec3 \<Rightarrow> vec3 \<Rightarrow> vec3" where
  "plus_vec3 (x, y, z) (x', y', z') = (x + x', y + y', z + z')"

section \<open>The collaborators as the specification describes them\<close>

















section \<open>A recording world, for concrete runs\<close>

text \<open>
  One instance of the collaborators, used to run the operations on concrete keyframes: every
  mutator appends the call it received to a log. A landmark listed in \<open>rec_fragile\<close> starts
  being erased when it loses an observation (it is left with too few observers). The graph
  node answers from fixed fields.
\<close>

datatype call =
    Add_observation landmark_ref keyframe_id nat
  | Erase_observation landmark_ref keyframe_id bool
  | Compute_descriptor landmark_ref
  | Update_mean_normal_and_obs_scale_variance landmark_ref
  | Erase_all_connections keyframe_id
  | Recover_spanning_connections keyframe_id
  | Replace_reference_keyframe keyframe_id "keyframe_id option"
  | Map_erase_keyframe keyframe_id
  | Bow_erase_keyframe keyframe_id

record recording_world =
  rec_origin :: keyframe_id
  rec_erasing :: "landmark_ref list"
  rec_fragile :: "landmark_ref list"
  rec_positions :: "(landmark_ref \<times> vec3) list"
  rec_indices :: "(landmark_ref \<times> int) list"
  rec_parent :: "keyframe_id option"
  rec_children :: "keyframe_id list"
  rec_loop_edges :: "keyframe_id list"
  rec_log :: "call list"

definition logged :: "call \<Rightarrow> recording_world \<Rightarrow> recording_world" where
  "logged c w = w\<lparr>rec_log := rec_log w @ [c]\<rparr>"

definition recording :: "recording_world collaborators" where
  "recording =
     \<lparr>lm_id = (\<lambda>w l. word_of_nat (100 + l)),
      lm_will_be_erased = (\<lambda>w l. l \<in> set (rec_erasing w)),
      lm_get_pos_in_world =
        (\<lambda>w l. case map_of (rec_positions w) l of Some p \<Rightarrow> p | None \<Rightarrow> (0, 0, 0)),
      lm_get_index_in_keyframe =
        (\<lambda>w l k. case map_of (rec_indices w) l of Some i \<Rightarrow> i | None \<Rightarrow> - 1),
      lm_add_observation = (\<lambda>l kf idx. logged (Add_observation l (kf_id kf) idx)),
      lm_erase_observation =
        (\<lambda>l kf w. logged (Erase_observation l (kf_id kf) (will_be_erased kf))
           (if l \<in> set (rec_fragile w) then w\<lparr>rec_erasing := l # rec_erasing w\<rparr> else w)),
      lm_compute_descriptor = (\<lambda>l. logged (Compute_descriptor l)),
      lm_update_mean_normal_and_obs_scale_variance =
        (\<lambda>l. logged (Update_mean_normal_and_obs_scale_variance l)),
      gn_has_loop_edge = (\<lambda>w k. rec_loop_edges w \<noteq> []),
      gn_get_spanning_parent = (\<lambda>w k. rec_parent w),
      gn_get_spanning_children = (\<lambda>w k. rec_children w),
      gn_get_loop_edges = (\<lambda>w k. rec_loop_edges w),
      gn_erase_all_connections = (\<lambda>kf. logged (Erase_all_connections (kf_id kf))),
      gn_recover_spanning_connections =
        (\<lambda>kf. logged (Recover_spanning_connections (kf_id kf))),
      map_origin_keyfrm = rec_origin,
      map_replace_reference_keyframe =
        (\<lambda>kf p. logged (Replace_reference_keyframe (kf_id kf) p)),
      map_erase_keyframe = (\<lambda>kf. logged (Map_erase_keyframe (kf_id kf))),
      bow_erase_keyframe = (\<lambda>kf. logged (Bow_erase_keyframe (kf_id kf)))\<rparr>"

definition quiet_world :: recording_world where
  "quiet_world =
     \<lparr>rec_origin = 0, rec_erasing = [], rec_fragile = [], rec_positions = [],
      rec_indices = [], rec_parent = None, rec_children = [], rec_loop_edges = [],
      rec_log = []\<rparr>"

definition pose_z_shift :: "real \<Rightarrow> mat44" where
  "pose_z_shift d = ((1, 0, 0, 0), (0, 1, 0, 0), (0, 0, 1, d), (0, 0, 0, 1))"

definition sample_keyframe :: "keyframe_id \<Rightarrow> landmark_ptr list \<Rightarrow> keyframe" where
  "sample_keyframe i lms =
     (keyframe_from_fields i 0 mat44_identity \<lparr>num_keypts = length lms\<rparr>)\<lparr>landmarks := lms\<rparr>"

definition depth_world :: recording_world where
  "depth_world =
     quiet_world\<lparr>rec_positions := [(11, (0, 0, 1)), (12, (5, 0, 2)), (13, (0, 7, 3)), (14, (1, 1, 4)),
                                   (15, (0, 0, 10))]\<rparr>"

definition quarter_turn :: mat44 where
  "quarter_turn = ((0, - 1, 0, 1), (1, 0, 0, 2), (0, 0, 1, 3), (0, 0, 0, 1))"

definition sample_frame :: frame where
  "sample_frame =
     \<lparr>frm_timestamp = 0, frm_frm_obs = \<lparr>num_keypts = 2\<rparr>, frm_landmarks = [Some 7, None],
      frm_pose_cw = mat44_identity\<rparr>"





text \<open>A frame with three landmark slots and two keypoints.\<close>

definition mismatched_frame :: frame where
  "mismatched_frame =
     \<lparr>frm_timestamp = 0, frm_frm_obs = \<lparr>num_keypts = 2\<rparr>,
      frm_landmarks = [Some 7, None, Some 8], frm_pose_cw = mat44_identity\<rparr>"


section \<open>Properties\<close>

lemmas run_defs =
  prepare_for_erasing_def recording_def sample_keyframe_def quiet_world_def logged_def
  keyframe_from_fields_def set_pose_cw_def Let_def

subsection \<open>The erasure protocol\<close>

lemma erase_observations_loop_foldl:
  "erase_observations_loop ifc kf lms w = foldl (detach_slot ifc kf) w lms"
proof (induction lms arbitrary: w)
  case Nil
  show ?case by simp
next
  case (Cons slot lms)
  show ?case
  proof (cases slot)
    case None
    with Cons show ?thesis by (simp add: detach_slot_def)
  next
    case (Some l)
    with Cons show ?thesis by (simp add: detach_slot_def Let_def)
  qed
qed

text \<open>
  Claim C1. On a keyframe that is neither the origin of the map nor pinned,
  \<^verbatim>\<open>prepare_for_erasing\<close> does the five steps of the protocol, each on the state the step
  before left: it raises \<open>will_be_erased\<close>; for every slot that holds a landmark not being
  erased it has the landmark drop its observation of this keyframe and, if the landmark is
  still not being erased, recompute its descriptor and then its viewing statistics; it has
  the graph node drop its covisibility edges and then repair the spanning tree; it has the
  map database replace this keyframe as a reference by the spanning parent the repair left
  and then remove the keyframe; it has the bag-of-words database remove the keyframe.
  The collaborators are arbitrary, so the equation fixes the order of the calls; each call
  is handed the keyframe with the flag already raised.
\<close>

theorem prepare_for_erasing_runs_protocol:
  assumes "kf_id kf \<noteq> map_origin_keyfrm ifc w" and "\<not> cannot_be_erased kf"
  shows "prepare_for_erasing ifc kf w = erasure_protocol ifc kf w"
  using assms
  by (simp add: prepare_for_erasing_def erasure_protocol_def erasure_step1_def
      erasure_step2_def erasure_step3_def erasure_step4_def erasure_step5_def
      erase_observations_loop_foldl Let_def)

text \<open>A run on the recording world: slot 0 holds a landmark that survives, slot 2 one that is
  already being erased, slot 3 one that starts being erased when it loses the observation.\<close>

theorem prepare_for_erasing_runs_protocol_witness:
  "kf_id (sample_keyframe 4 [Some 7, None, Some 8, Some 9]) \<noteq>
     map_origin_keyfrm recording
       (quiet_world\<lparr>rec_erasing := [8], rec_fragile := [9], rec_parent := Some 2\<rparr>) \<and>
   \<not> cannot_be_erased (sample_keyframe 4 [Some 7, None, Some 8, Some 9]) \<and>
   erasure_protocol recording (sample_keyframe 4 [Some 7, None, Some 8, Some 9])
       (quiet_world\<lparr>rec_erasing := [8], rec_fragile := [9], rec_parent := Some 2\<rparr>) =
     prepare_for_erasing recording (sample_keyframe 4 [Some 7, None, Some 8, Some 9])
       (quiet_world\<lparr>rec_erasing := [8], rec_fragile := [9], rec_parent := Some 2\<rparr>) \<and>
   will_be_erased (fst (erasure_protocol recording (sample_keyframe 4 [Some 7, None, Some 8, Some 9])
       (quiet_world\<lparr>rec_erasing := [8], rec_fragile := [9], rec_parent := Some 2\<rparr>))) \<and>
   rec_log (snd (erasure_protocol recording (sample_keyframe 4 [Some 7, None, Some 8, Some 9])
       (quiet_world\<lparr>rec_erasing := [8], rec_fragile := [9], rec_parent := Some 2\<rparr>))) =
     [Erase_observation 7 4 True, Compute_descriptor 7,
      Update_mean_normal_and_obs_scale_variance 7, Erase_observation 9 4 True,
      Erase_all_connections 4, Recover_spanning_connections 4,
      Replace_reference_keyframe 4 (Some 2), Map_erase_keyframe 4, Bow_erase_keyframe 4]"
proof -
  let ?K = "sample_keyframe 4 [Some 7, None, Some 8, Some 9]"
  let ?W = "quiet_world\<lparr>rec_erasing := [8], rec_fragile := [9], rec_parent := Some 2\<rparr>"
  have origin: "kf_id ?K \<noteq> map_origin_keyfrm recording ?W"
    by (simp add: run_defs)
  have pinned: "\<not> cannot_be_erased ?K"
    by (simp add: run_defs)
  have log: "rec_log (snd (prepare_for_erasing recording ?K ?W)) =
     [Erase_observation 7 4 True, Compute_descriptor 7,
      Update_mean_normal_and_obs_scale_variance 7, Erase_observation 9 4 True,
      Erase_all_connections 4, Recover_spanning_connections 4,
      Replace_reference_keyframe 4 (Some 2), Map_erase_keyframe 4, Bow_erase_keyframe 4]"
    by (simp add: run_defs)
  have flag: "will_be_erased (fst (prepare_for_erasing recording ?K ?W))"
    by (simp add: run_defs)
  show ?thesis
    using origin pinned log flag prepare_for_erasing_runs_protocol [OF origin pinned]
    by simp
qed


































subsection \<open>Pinning\<close>

text \<open>
  Claim C3. While the graph node reports a loop edge, \<^verbatim>\<open>set_to_be_erased\<close> leaves the keyframe
  as it is, however often it is called, so \<open>cannot_be_erased\<close> keeps its value; when the node
  reports none, the call clears \<open>cannot_be_erased\<close>. Hence the keyframe is pinned after the
  call exactly when it was pinned before and the node holds a loop edge.
\<close>

theorem set_to_be_erased_loop_edge_gate:
  "(gn_has_loop_edge ifc w (kf_id kf) \<longrightarrow>
      set_to_be_erased ifc w kf = kf \<and> (set_to_be_erased ifc w ^^ n) kf = kf) \<and>
   (\<not> gn_has_loop_edge ifc w (kf_id kf) \<longrightarrow>
      set_to_be_erased ifc w kf = kf\<lparr>cannot_be_erased := False\<rparr>) \<and>
   (cannot_be_erased (set_to_be_erased ifc w kf) \<longleftrightarrow>
      cannot_be_erased kf \<and> gn_has_loop_edge ifc w (kf_id kf))"
proof -
  have "(set_to_be_erased ifc w ^^ n) kf = kf" if "gn_has_loop_edge ifc w (kf_id kf)"
    using that by (induction n) (simp_all add: set_to_be_erased_def)
  then show ?thesis by (simp add: set_to_be_erased_def)
qed

theorem set_to_be_erased_loop_edge_gate_witness:
  "gn_has_loop_edge recording (quiet_world\<lparr>rec_loop_edges := [9]\<rparr>)
     (kf_id (set_not_to_be_erased (sample_keyframe 4 []))) \<and>
   cannot_be_erased (set_to_be_erased recording (quiet_world\<lparr>rec_loop_edges := [9]\<rparr>)
     (set_not_to_be_erased (sample_keyframe 4 []))) \<and>
   \<not> gn_has_loop_edge recording quiet_world
     (kf_id (set_not_to_be_erased (sample_keyframe 4 []))) \<and>
   \<not> cannot_be_erased (set_to_be_erased recording quiet_world
     (set_not_to_be_erased (sample_keyframe 4 [])))"
proof -
  let ?P = "set_not_to_be_erased (sample_keyframe 4 [])"
  have held: "gn_has_loop_edge recording (quiet_world\<lparr>rec_loop_edges := [9]\<rparr>) (kf_id ?P)"
    by (simp add: recording_def quiet_world_def)
  have free: "\<not> gn_has_loop_edge recording quiet_world (kf_id ?P)"
    by (simp add: recording_def quiet_world_def)
  have p: "cannot_be_erased ?P"
    by (simp add: set_not_to_be_erased_def)
  show ?thesis
    using held free p
      set_to_be_erased_loop_edge_gate [of recording "quiet_world\<lparr>rec_loop_edges := [9]\<rparr>" ?P 1]
      set_to_be_erased_loop_edge_gate [of recording quiet_world ?P 1]
    by simp
qed

subsection \<open>Median depth\<close>

lemma collect_depths_append:
  "collect_depths ifc w (block13_row2 (pose_cw kf)) (coeff23 (pose_cw kf)) use_abs lms depths =
     depths @ map (depth_of ifc w use_abs kf) (occupied_slots lms)"
proof (induction lms arbitrary: depths)
  case Nil
  show ?case by (simp add: occupied_slots_def)
next
  case (Cons slot lms)
  show ?case
  proof (cases slot)
    case None
    with Cons show ?thesis by (simp add: occupied_slots_def)
  next
    case (Some l)
    with Cons show ?thesis by (simp add: occupied_slots_def depth_of_def Let_def)
  qed
qed

lemma median_index_positive:
  assumes "0 < n" and "n < 2 ^ 64"
  shows "median_index n = (n - 1) div 2"
proof -
  have n: "unat (word_of_nat n :: 64 word) = n"
    using assms(2) by (simp add: unat_of_nat)
  then have "(word_of_nat n :: 64 word) \<noteq> 0"
    using assms(1) by (metis unat_0 less_numeral_extra(3))
  then have "unat ((word_of_nat n :: 64 word) - 1) = n - 1"
    using n by (simp add: unat_minus_one)
  then show ?thesis
    by (simp add: median_index_def unat_div)
qed

lemma median_index_empty: "median_index 0 = 2 ^ 63 - 1"
  by (simp add: median_index_def unat_div)

lemma lower_median_in_range: "0 < (n :: nat) \<Longrightarrow> (n - 1) div 2 < n"
  by arith

lemma occupied_slots_length: "length (occupied_slots lms) \<le> length lms"
  by (simp add: occupied_slots_def)

lemma sort_of_one_to_four:
  fixes ds :: "real list"
  assumes "mset ds = {#1, 2, 3, 4#}"
  shows "sort ds = [1, 2, 3, 4]"
proof -
  have "mset ds = mset [1, 2, 3, 4 :: real]" using assms by simp
  then have "sort ds = sort [1, 2, 3, 4 :: real]"
    by (metis sorted_list_of_multiset_mset)
  then show ?thesis by simp
qed

text \<open>
  Claim C4. When at least one slot holds a landmark, \<^verbatim>\<open>compute_median_depth\<close> returns the
  element at index \<open>(count - 1) div 2\<close> of the ascending sort of the depths it collected, one
  per occupied slot: the lower median. The value is the depth of one of those landmarks, so
  it is never an average of two of them, and depths 1, 2, 3, 4 in any slot order give 2.
  (The slot count is below \<open>2 ^ 64\<close>, as the size of any vector is.)
\<close>

theorem compute_median_depth_lower_median:
  assumes "occupied_slots (landmarks kf) \<noteq> []" and "length (landmarks kf) < 2 ^ 64"
  shows "compute_median_depth ifc w use_abs kf =
           Inr (sort (map (depth_of ifc w use_abs kf) (occupied_slots (landmarks kf))) !
                  ((length (occupied_slots (landmarks kf)) - 1) div 2)) \<and>
         (\<exists>l \<in> set (occupied_slots (landmarks kf)).
            compute_median_depth ifc w use_abs kf = Inr (depth_of ifc w use_abs kf l)) \<and>
         (mset (map (depth_of ifc w use_abs kf) (occupied_slots (landmarks kf))) = {#1, 2, 3, 4#}
            \<longrightarrow> compute_median_depth ifc w use_abs kf = Inr 2)"
proof -
  let ?ls = "occupied_slots (landmarks kf)"
  let ?ds = "map (depth_of ifc w use_abs kf) ?ls"
  let ?k = "(length ?ls - 1) div 2"
  have n: "0 < length ?ds" "length ?ds < 2 ^ 64"
    using assms occupied_slots_length [of "landmarks kf"] by simp_all
  have "(length ?ds - 1) div 2 < length ?ds"
    using n(1) by (rule lower_median_in_range)
  then have k: "?k < length (sort ?ds)"
    by simp
  have run: "compute_median_depth ifc w use_abs kf = Inr (sort ?ds ! ?k)"
    using k median_index_positive [OF n]
    by (simp add: compute_median_depth_def Let_def collect_depths_append vector_at_def)
  have "sort ?ds ! ?k \<in> set (sort ?ds)"
    using k by (rule nth_mem)
  then have "sort ?ds ! ?k \<in> depth_of ifc w use_abs kf ` set ?ls"
    by simp
  then have elem: "\<exists>l \<in> set ?ls. compute_median_depth ifc w use_abs kf = Inr (depth_of ifc w use_abs kf l)"
    using run by auto
  have four: "compute_median_depth ifc w use_abs kf = Inr 2" if "mset ?ds = {#1, 2, 3, 4#}"
  proof -
    have "size (mset ?ds) = 4" using that by simp
    then have "length ?ls = 4" by simp
    then show ?thesis
      using run sort_of_one_to_four [OF that] by simp
  qed
  from run elem four show ?thesis by blast
qed

theorem compute_median_depth_lower_median_witness:
  "occupied_slots (landmarks (sample_keyframe 4 [Some 13, None, Some 11, Some 14, Some 12])) \<noteq> [] \<and>
   length (landmarks (sample_keyframe 4 [Some 13, None, Some 11, Some 14, Some 12])) < 2 ^ 64 \<and>
   compute_median_depth recording depth_world False
     (sample_keyframe 4 [Some 13, None, Some 11, Some 14, Some 12]) = Inr 2"
proof -
  let ?K = "sample_keyframe 4 [Some 13, None, Some 11, Some 14, Some 12]"
  have lms: "landmarks ?K = [Some 13, None, Some 11, Some 14, Some 12]"
    by (simp add: sample_keyframe_def)
  have pose: "pose_cw ?K = mat44_identity"
    by (simp add: sample_keyframe_def keyframe_from_fields_def set_pose_cw_def Let_def)
  have occ: "occupied_slots (landmarks ?K) = [13, 11, 14, 12]"
    by (simp add: sample_keyframe_def occupied_slots_def)
  have nonempty: "occupied_slots (landmarks ?K) \<noteq> []"
    by (simp add: occ)
  have small: "length (landmarks ?K) < 2 ^ 64"
    by (simp add: lms)
  have depths:
    "depth_of recording depth_world False ?K 13 = 3"
    "depth_of recording depth_world False ?K 11 = 1"
    "depth_of recording depth_world False ?K 14 = 4"
    "depth_of recording depth_world False ?K 12 = 2"
    by (simp_all add: depth_of_def pose mat44_identity_def recording_def depth_world_def
        quiet_world_def)
  have "compute_median_depth recording depth_world False ?K = Inr (sort [3, 1, 4, 2 :: real] ! 1)"
    using compute_median_depth_lower_median [OF nonempty small, of recording depth_world False]
    by (simp add: occ depths)
  then show ?thesis
    using nonempty small by simp
qed

text \<open>With no occupied slot the index wraps to \<open>2 ^ 63 - 1\<close> and \<^verbatim>\<open>at\<close> throws.\<close>

lemma compute_median_depth_empty:
  assumes "occupied_slots (landmarks kf) = []"
  shows "compute_median_depth ifc w use_abs kf = Inl Out_of_range"
  using assms
  by (simp add: compute_median_depth_def Let_def collect_depths_append vector_at_def)

text \<open>The loop tests the pointer only; what a landmark answers to \<^verbatim>\<open>will_be_erased\<close> has no
  effect on the result.\<close>

lemma collect_depths_ignores_erasure:
  "collect_depths (ifc\<lparr>lm_will_be_erased := f\<rparr>) w rz tz use_abs lms depths =
     collect_depths ifc w rz tz use_abs lms depths"
proof (induction lms arbitrary: depths)
  case Nil
  show ?case by simp
next
  case (Cons slot lms)
  then show ?case by (cases slot) (simp_all add: Let_def)
qed

lemma compute_median_depth_ignores_erasure:
  "compute_median_depth (ifc\<lparr>lm_will_be_erased := f\<rparr>) w use_abs kf =
     compute_median_depth ifc w use_abs kf"
  by (simp add: compute_median_depth_def Let_def collect_depths_ignores_erasure)

text \<open>
  Claim C5 says that a slot whose landmark is being erased contributes no depth, as an empty
  slot does. The code differs: with landmarks at depths 1, 2 and 10 in the slots, the last
  one being erased, \<^verbatim>\<open>get_valid_landmarks\<close> drops it, but \<^verbatim>\<open>compute_median_depth\<close> counts its
  depth and returns 2; with that slot empty it returns 1.
\<close>

theorem compute_median_depth_counts_erasing_landmark:
  "lm_will_be_erased recording (depth_world\<lparr>rec_erasing := [15]\<rparr>) 15 \<and>
   get_valid_landmarks recording (depth_world\<lparr>rec_erasing := [15]\<rparr>)
     (sample_keyframe 4 [Some 11, Some 12, Some 15]) = {11, 12} \<and>
   compute_median_depth recording (depth_world\<lparr>rec_erasing := [15]\<rparr>) False
     (sample_keyframe 4 [Some 11, Some 12, Some 15]) = Inr 2 \<and>
   compute_median_depth recording (depth_world\<lparr>rec_erasing := [15]\<rparr>) False
     (sample_keyframe 4 [Some 11, Some 12, None]) = Inr 1"
proof -
  let ?W = "depth_world\<lparr>rec_erasing := [15]\<rparr>"
  have erasing: "lm_will_be_erased recording ?W 15"
    by (simp add: recording_def depth_world_def quiet_world_def)
  have valid: "get_valid_landmarks recording ?W (sample_keyframe 4 [Some 11, Some 12, Some 15]) = {11, 12}"
    by (auto simp: get_valid_landmarks_def sample_keyframe_def recording_def depth_world_def
        quiet_world_def)
  have idx3: "median_index (Suc (Suc (Suc 0))) = 1"
    and idx2: "median_index (Suc (Suc 0)) = 0"
    by (simp_all add: median_index_def unat_div)
  have with_erasing: "compute_median_depth recording ?W False
      (sample_keyframe 4 [Some 11, Some 12, Some 15]) = Inr 2"
    by (simp add: compute_median_depth_def sample_keyframe_def keyframe_from_fields_def
        set_pose_cw_def Let_def mat44_identity_def recording_def depth_world_def quiet_world_def
        vector_at_def idx3)
  have without: "compute_median_depth recording ?W False
      (sample_keyframe 4 [Some 11, Some 12, None]) = Inr 1"
    by (simp add: compute_median_depth_def sample_keyframe_def keyframe_from_fields_def
        set_pose_cw_def Let_def mat44_identity_def recording_def depth_world_def quiet_world_def
        vector_at_def idx2)
  from erasing valid with_erasing without show ?thesis by blast
qed

subsection \<open>Pose\<close>

lemma mat33_cases:
  obtains a00 a01 a02 a10 a11 a12 a20 a21 a22 where
    "R = ((a00, a01, a02), (a10, a11, a12), (a20, a21, a22))"
  by (metis prod_cases3)

lemma vec3_cases: obtains x y z where "v = (x, y, z)"
  by (metis prod_cases3)

lemma mat44_cases:
  obtains a00 a01 a02 a03 a10 a11 a12 a13 a20 a21 a22 a23 a30 a31 a32 a33 where
    "T = ((a00, a01, a02, a03), (a10, a11, a12, a13), (a20, a21, a22, a23), (a30, a31, a32, a33))"
  by (metis prod_cases4)

lemma rigid_blocks:
  "block33 (rigid R t) = R" "block31 (rigid R t) = t" "bottom_row (rigid R t) = (0, 0, 0, 1)"
  by (cases R rule: mat33_cases; cases t rule: vec3_cases;
      simp add: rigid_def mat44_identity_def)+

lemma rigid_form:
  assumes "bottom_row T = (0, 0, 0, 1)"
  shows "T = rigid (block33 T) (block31 T)"
  using assms by (cases T rule: mat44_cases) (simp add: rigid_def mat44_identity_def)

lemma rigid_times:
  "mat44_times (rigid R t) (rigid R' t') =
     rigid (mat33_times R R') (plus_vec3 (mat33_times_vec3 R t') t)"
  by (cases R rule: mat33_cases; cases R' rule: mat33_cases;
      cases t rule: vec3_cases; cases t' rule: vec3_cases)
    (simp add: rigid_def mat44_identity_def)

lemma mat33_times_vec3_assoc:
  "mat33_times_vec3 A (mat33_times_vec3 B v) = mat33_times_vec3 (mat33_times A B) v"
  by (cases A rule: mat33_cases; cases B rule: mat33_cases; cases v rule: vec3_cases)
    (simp add: algebra_simps)

lemma mat33_times_vec3_uminus:
  "mat33_times_vec3 (uminus_mat33 A) v = uminus_vec3 (mat33_times_vec3 A v)"
  "mat33_times_vec3 A (uminus_vec3 v) = uminus_vec3 (mat33_times_vec3 A v)"
  by (cases A rule: mat33_cases; cases v rule: vec3_cases; simp add: algebra_simps)+

lemma mat33_identity_times_vec3: "mat33_times_vec3 mat33_identity v = v"
  by (cases v rule: vec3_cases) (simp add: mat33_identity_def)

lemma plus_uminus_vec3:
  "plus_vec3 v (uminus_vec3 v) = (0, 0, 0)" "plus_vec3 (uminus_vec3 v) v = (0, 0, 0)"
  by (cases v rule: vec3_cases; simp)+

lemma rigid_identity: "rigid mat33_identity (0, 0, 0) = mat44_identity"
  by (simp add: rigid_def mat33_identity_def mat44_identity_def)

lemma set_pose_cw_fields:
  "pose_cw (set_pose_cw T kf) = T"
  "trans_wc (set_pose_cw T kf) =
     uminus_vec3 (mat33_times_vec3 (transpose33 (block33 T)) (block31 T))"
  "pose_wc (set_pose_cw T kf) =
     rigid (transpose33 (block33 T))
       (uminus_vec3 (mat33_times_vec3 (transpose33 (block33 T)) (block31 T)))"
  by (simp_all add: set_pose_cw_def Let_def rigid_def mat33_times_vec3_uminus)

text \<open>
  Claim C6. After \<^verbatim>\<open>set_pose_cw\<close> of \<open>T\<close>, with rotation block \<open>R\<close> and translation \<open>t\<close>, the
  cached inverse has rotation block \<open>R\<close> transposed, translation minus \<open>R\<close> transposed times
  \<open>t\<close> and bottom row \<open>(0, 0, 0, 1)\<close>, and \<^verbatim>\<open>get_trans_wc\<close> returns that translation. When \<open>R\<close>
  is orthonormal and the bottom row of \<open>T\<close> is \<open>(0, 0, 0, 1)\<close>, the cached matrix is the
  inverse of \<open>T\<close> on both sides. The three pose members are set in the one step, from \<open>T\<close>
  alone: nothing of the pose the keyframe had before remains.
\<close>

theorem set_pose_cw_caches_rigid_inverse:
  "get_pose_cw (set_pose_cw T kf) = T \<and>
   block33 (get_pose_wc (set_pose_cw T kf)) = transpose33 (block33 T) \<and>
   block31 (get_pose_wc (set_pose_cw T kf)) =
     uminus_vec3 (mat33_times_vec3 (transpose33 (block33 T)) (block31 T)) \<and>
   bottom_row (get_pose_wc (set_pose_cw T kf)) = (0, 0, 0, 1) \<and>
   get_trans_wc (set_pose_cw T kf) =
     uminus_vec3 (mat33_times_vec3 (transpose33 (block33 T)) (block31 T)) \<and>
   (orthonormal (block33 T) \<and> bottom_row T = (0, 0, 0, 1) \<longrightarrow>
      mat44_times (get_pose_wc (set_pose_cw T kf)) T = mat44_identity \<and>
      mat44_times T (get_pose_wc (set_pose_cw T kf)) = mat44_identity) \<and>
   get_pose_cw (set_pose_cw T kf') = get_pose_cw (set_pose_cw T kf) \<and>
   get_pose_wc (set_pose_cw T kf') = get_pose_wc (set_pose_cw T kf) \<and>
   get_trans_wc (set_pose_cw T kf') = get_trans_wc (set_pose_cw T kf)"
proof -
  let ?R = "block33 T"
  let ?t = "block31 T"
  let ?Rt = "transpose33 ?R"
  let ?c = "uminus_vec3 (mat33_times_vec3 ?Rt ?t)"
  have inverse: "mat44_times (rigid ?Rt ?c) T = mat44_identity \<and>
      mat44_times T (rigid ?Rt ?c) = mat44_identity"
    if orth: "orthonormal ?R" and bottom: "bottom_row T = (0, 0, 0, 1)"
  proof -
    have T: "T = rigid ?R ?t" using bottom by (rule rigid_form)
    have left: "mat44_times (rigid ?Rt ?c) (rigid ?R ?t) = mat44_identity"
      using orth
      by (simp add: rigid_times orthonormal_def plus_uminus_vec3 rigid_identity)
    have "mat33_times_vec3 ?R ?c = uminus_vec3 ?t"
      using orth
      by (simp add: mat33_times_vec3_uminus mat33_times_vec3_assoc orthonormal_def
          mat33_identity_times_vec3)
    then have right: "mat44_times (rigid ?R ?t) (rigid ?Rt ?c) = mat44_identity"
      using orth
      by (simp add: rigid_times orthonormal_def plus_uminus_vec3 rigid_identity)
    from left right show ?thesis using T by simp
  qed
  show ?thesis
    using inverse
    by (simp add: get_pose_cw_def get_pose_wc_def get_trans_wc_def set_pose_cw_fields
        rigid_blocks)
qed

theorem set_pose_cw_caches_rigid_inverse_witness:
  "orthonormal (block33 quarter_turn) \<and> bottom_row quarter_turn = (0, 0, 0, 1) \<and>
   get_pose_wc (set_pose_cw quarter_turn (sample_keyframe 4 [])) =
     ((0, 1, 0, - 2), (- 1, 0, 0, 1), (0, 0, 1, - 3), (0, 0, 0, 1)) \<and>
   get_trans_wc (set_pose_cw quarter_turn (sample_keyframe 4 [])) = (- 2, 1, - 3) \<and>
   mat44_times (get_pose_wc (set_pose_cw quarter_turn (sample_keyframe 4 []))) quarter_turn =
     mat44_identity \<and>
   mat44_times quarter_turn (get_pose_wc (set_pose_cw quarter_turn (sample_keyframe 4 []))) =
     mat44_identity"
proof -
  have orth: "orthonormal (block33 quarter_turn)"
    by (simp add: orthonormal_def quarter_turn_def mat33_identity_def)
  have bottom: "bottom_row quarter_turn = (0, 0, 0, 1)"
    by (simp add: quarter_turn_def)
  have wc: "get_pose_wc (set_pose_cw quarter_turn (sample_keyframe 4 [])) =
     ((0, 1, 0, - 2), (- 1, 0, 0, 1), (0, 0, 1, - 3), (0, 0, 0, 1))"
    by (simp add: get_pose_wc_def set_pose_cw_def Let_def quarter_turn_def mat44_identity_def)
  have t: "get_trans_wc (set_pose_cw quarter_turn (sample_keyframe 4 [])) = (- 2, 1, - 3)"
    by (simp add: get_trans_wc_def set_pose_cw_def Let_def quarter_turn_def)
  show ?thesis
    using orth bottom wc t
      set_pose_cw_caches_rigid_inverse [of quarter_turn "sample_keyframe 4 []"]
    by simp
qed

subsection \<open>Landmark slots\<close>

text \<open>
  Claim C7, as the code has it. The keyframe built from persisted fields has one slot per
  feature observation. The keyframe built from a frame takes the slots and the observations
  from the frame as they are, so it has one slot per observation exactly when the frame
  has: this constructor does not establish the equality, it inherits it. \<^verbatim>\<open>add_landmark\<close>,
  \<^verbatim>\<open>erase_landmark_with_index\<close>, \<^verbatim>\<open>erase_landmark\<close> and \<^verbatim>\<open>update_landmarks\<close> change neither the
  length of the slot sequence nor the observations, so the equality is kept where it holds.
\<close>

theorem slot_count_established_and_kept:
  "slots_match_observations (keyframe_from_fields i ts pose obs) \<and>
   (slots_match_observations (keyframe_from_frame i frm) \<longleftrightarrow>
      frame_slots_match_observations frm) \<and>
   (add_landmark lm idx kf = Inr kf' \<longrightarrow> keeps_slot_count kf kf') \<and>
   (erase_landmark_with_index idx kf = Inr kf' \<longrightarrow> keeps_slot_count kf kf') \<and>
   (erase_landmark ifc w l kf = Inr kf' \<longrightarrow> keeps_slot_count kf kf') \<and>
   keeps_slot_count kf (fst (update_landmarks ifc kf w)) \<and>
   (keeps_slot_count kf kf' \<and> slots_match_observations kf \<longrightarrow> slots_match_observations kf')"
proof (intro conjI impI)
  show "slots_match_observations (keyframe_from_fields i ts pose obs)"
    by (simp add: slots_match_observations_def keyframe_from_fields_def set_pose_cw_def Let_def)
  show "slots_match_observations (keyframe_from_frame i frm) \<longleftrightarrow>
      frame_slots_match_observations frm"
    by (simp add: slots_match_observations_def frame_slots_match_observations_def
        keyframe_from_frame_def set_pose_cw_def Let_def)
  show "keeps_slot_count kf (fst (update_landmarks ifc kf w))"
    by (simp add: keeps_slot_count_def update_landmarks_def)
next
  assume "add_landmark lm idx kf = Inr kf'"
  then show "keeps_slot_count kf kf'"
    by (auto simp: keeps_slot_count_def add_landmark_def vector_at_assign_def split: if_splits)
next
  assume "erase_landmark_with_index idx kf = Inr kf'"
  then show "keeps_slot_count kf kf'"
    by (auto simp: keeps_slot_count_def erase_landmark_with_index_def vector_at_assign_def
        split: if_splits)
next
  assume "erase_landmark ifc w l kf = Inr kf'"
  then show "keeps_slot_count kf kf'"
    by (auto simp: keeps_slot_count_def erase_landmark_def Let_def vector_at_assign_def
        split: if_splits)
next
  assume "keeps_slot_count kf kf' \<and> slots_match_observations kf"
  then show "slots_match_observations kf'"
    by (simp add: keeps_slot_count_def slots_match_observations_def)
qed

theorem slot_count_established_and_kept_witness:
  "frame_slots_match_observations sample_frame \<and>
   slots_match_observations (keyframe_from_frame 4 sample_frame) \<and>
   slots_match_observations (sample_keyframe 4 [None, None, None]) \<and>
   add_landmark (Some 5) 2 (sample_keyframe 4 [None, None, None]) =
     Inr (sample_keyframe 4 [None, None, Some 5]) \<and>
   keeps_slot_count (sample_keyframe 4 [None, None, None])
     (sample_keyframe 4 [None, None, Some 5]) \<and>
   slots_match_observations (sample_keyframe 4 [None, None, Some 5])"
proof -
  let ?K = "sample_keyframe 4 [None, None, None]"
  let ?K' = "sample_keyframe 4 [None, None, Some 5]"
  note facts = slot_count_established_and_kept
    [of 4 0 mat44_identity "\<lparr>num_keypts = 3\<rparr>" sample_frame "Some 5" 2 ?K ?K'
        recording quiet_world 0]
  have frame: "frame_slots_match_observations sample_frame"
    by (simp add: frame_slots_match_observations_def sample_frame_def)
  have from_frame: "slots_match_observations (keyframe_from_frame 4 sample_frame)"
    using facts frame by blast
  have "keyframe_from_fields 4 0 mat44_identity \<lparr>num_keypts = 3\<rparr> = ?K"
    by (simp add: sample_keyframe_def keyframe_from_fields_def set_pose_cw_def Let_def
        numeral_3_eq_3)
  then have inv: "slots_match_observations ?K"
    using facts by simp
  have add: "add_landmark (Some 5) 2 ?K = Inr ?K'"
    by (simp add: add_landmark_def vector_at_assign_def sample_keyframe_def
        keyframe_from_fields_def set_pose_cw_def Let_def numeral_2_eq_2)
  have kept: "keeps_slot_count ?K ?K'"
    using facts add by blast
  have "slots_match_observations ?K'"
    using facts kept inv by blast
  with frame from_frame inv add kept show ?thesis by blast
qed

text \<open>Claim C7 as it is written fails for the constructor from a frame: built from a frame
  with three slots and two keypoints, the keyframe has three slots for two observations.\<close>

theorem frame_constructor_copies_mismatch:
  "num_keypts (frm_obs (keyframe_from_frame 4 mismatched_frame)) = 2 \<and>
   length (landmarks (keyframe_from_frame 4 mismatched_frame)) = 3 \<and>
   \<not> slots_match_observations (keyframe_from_frame 4 mismatched_frame)"
  by (simp add: slots_match_observations_def keyframe_from_frame_def mismatched_frame_def
      set_pose_cw_def Let_def)



text \<open>
  Claim C10. \<^verbatim>\<open>erase_landmark\<close> asks the landmark for its index in this keyframe. A negative
  answer leaves the keyframe as it is. An answer that is a slot of the keyframe empties that
  slot and no other, whatever the slot holds (the slot is not compared with the landmark).
  An answer beyond the slots throws and changes nothing.
\<close>

theorem erase_landmark_clears_reported_slot:
  assumes "lm_get_index_in_keyframe ifc w lm (kf_id kf) = idx"
  shows
  "(idx < 0 \<longrightarrow> erase_landmark ifc w lm kf = Inr kf) \<and>
   (0 \<le> idx \<and> nat idx < length (landmarks kf) \<longrightarrow>
      erase_landmark ifc w lm kf = Inr (kf\<lparr>landmarks := (landmarks kf)[nat idx := None]\<rparr>) \<and>
      (\<forall>kf'. erase_landmark ifc w lm kf = Inr kf' \<longrightarrow>
         length (landmarks kf') = length (landmarks kf) \<and>
         landmarks kf' ! nat idx = None \<and>
         (\<forall>j. j \<noteq> nat idx \<longrightarrow> landmarks kf' ! j = landmarks kf ! j))) \<and>
   (0 \<le> idx \<and> length (landmarks kf) \<le> nat idx \<longrightarrow>
      erase_landmark ifc w lm kf = Inl Out_of_range)"
  using assms by (auto simp: erase_landmark_def Let_def vector_at_assign_def)

text \<open>Landmark 7 reports slot 2, which holds landmark 8: the slot is emptied all the same.\<close>

theorem erase_landmark_clears_reported_slot_witness:
  "lm_get_index_in_keyframe recording (quiet_world\<lparr>rec_indices := [(7, 2)]\<rparr>) 7
     (kf_id (sample_keyframe 4 [Some 5, Some 6, Some 8])) = 2 \<and>
   erase_landmark recording (quiet_world\<lparr>rec_indices := [(7, 2)]\<rparr>) 7
     (sample_keyframe 4 [Some 5, Some 6, Some 8]) = Inr (sample_keyframe 4 [Some 5, Some 6, None]) \<and>
   lm_get_index_in_keyframe recording quiet_world 7
     (kf_id (sample_keyframe 4 [Some 5, Some 6, Some 7])) = - 1 \<and>
   erase_landmark recording quiet_world 7
     (sample_keyframe 4 [Some 5, Some 6, Some 7]) = Inr (sample_keyframe 4 [Some 5, Some 6, Some 7])"
proof -
  let ?W = "quiet_world\<lparr>rec_indices := [(7, 2)]\<rparr>"
  let ?K = "sample_keyframe 4 [Some 5, Some 6, Some 8]"
  let ?N = "sample_keyframe 4 [Some 5, Some 6, Some 7]"
  have reported: "lm_get_index_in_keyframe recording ?W 7 (kf_id ?K) = 2"
    by (simp add: recording_def quiet_world_def)
  have none: "lm_get_index_in_keyframe recording quiet_world 7 (kf_id ?N) = - 1"
    by (simp add: recording_def quiet_world_def)
  have upd: "?K\<lparr>landmarks := (landmarks ?K)[nat 2 := None]\<rparr> =
      sample_keyframe 4 [Some 5, Some 6, None]"
    by (simp add: sample_keyframe_def keyframe_from_fields_def set_pose_cw_def Let_def
        numeral_2_eq_2)
  have len: "(0 :: int) \<le> 2 \<and> nat 2 < length (landmarks ?K)"
    by (simp add: sample_keyframe_def)
  have "erase_landmark recording ?W 7 ?K = Inr (?K\<lparr>landmarks := (landmarks ?K)[nat 2 := None]\<rparr>)"
    using erase_landmark_clears_reported_slot [OF reported] len by blast
  then have cleared: "erase_landmark recording ?W 7 ?K = Inr (sample_keyframe 4 [Some 5, Some 6, None])"
    by (simp only: upd)
  have "(- 1 :: int) < 0" by simp
  then have kept: "erase_landmark recording quiet_world 7 ?N = Inr ?N"
    using erase_landmark_clears_reported_slot [OF none] by blast
  from reported cleared none kept show ?thesis by blast
qed

subsection \<open>Serialisation\<close>

lemma landmark_ids_loop_result:
  assumes "\<forall>i \<in> set idxs. i < length lms" and "length ids = length lms"
  shows "\<exists>ids'. landmark_ids_loop ifc w lms idxs ids = Inr ids' \<and> length ids' = length lms \<and>
           (\<forall>j < length lms. ids' ! j =
              (if j \<in> set idxs \<and> live_slot ifc w (lms ! j) then slot_id ifc w (lms ! j)
               else ids ! j))"
  using assms
proof (induction idxs arbitrary: ids)
  case Nil
  then show ?case by simp
next
  case (Cons i rest)
  then have i: "i < length lms" and rest: "\<forall>i \<in> set rest. i < length lms" by simp_all
  show ?case
  proof (cases "live_slot ifc w (lms ! i)")
    case False
    then have step: "landmark_ids_loop ifc w lms (i # rest) ids = landmark_ids_loop ifc w lms rest ids"
      using i by (auto simp: vector_at_def live_slot_def split: option.splits)
    from Cons.IH [OF rest Cons.prems(2)] obtain ids' where
      r: "landmark_ids_loop ifc w lms rest ids = Inr ids'" "length ids' = length lms"
         "\<forall>j < length lms. ids' ! j =
              (if j \<in> set rest \<and> live_slot ifc w (lms ! j) then slot_id ifc w (lms ! j)
               else ids ! j)"
      by blast
    show ?thesis
      using r False step by auto
  next
    case True
    then obtain l where l: "lms ! i = Some l" "\<not> lm_will_be_erased ifc w l"
      "slot_id ifc w (lms ! i) = sint (lm_id ifc w l)"
      by (auto simp: slot_id_def live_slot_def split: option.splits)
    let ?ids1 = "ids[i := sint (lm_id ifc w l)]"
    have step: "landmark_ids_loop ifc w lms (i # rest) ids = landmark_ids_loop ifc w lms rest ?ids1"
      using i l Cons.prems(2) by (simp add: vector_at_def vector_at_assign_def)
    have len1: "length ?ids1 = length lms" using Cons.prems(2) by simp
    from Cons.IH [OF rest len1] obtain ids' where
      r: "landmark_ids_loop ifc w lms rest ?ids1 = Inr ids'" "length ids' = length lms"
         "\<forall>j < length lms. ids' ! j =
              (if j \<in> set rest \<and> live_slot ifc w (lms ! j) then slot_id ifc w (lms ! j)
               else ?ids1 ! j)"
      by blast
    have "ids' ! j =
              (if j \<in> set (i # rest) \<and> live_slot ifc w (lms ! j) then slot_id ifc w (lms ! j)
               else ids ! j)" if "j < length lms" for j
      using r(3) that l True Cons.prems(2) by (cases "j = i") auto
    then show ?thesis using r step by auto
  qed
qed

lemma uint_minus_one_32: "uint (- 1 :: 32 word) = 4294967295"
  by (simp add: unsigned_minus_1_eq_mask mask_eq_exp_minus_1)

lemma slot_id_dead: "\<not> live_slot ifc w slot \<Longrightarrow> slot_id ifc w slot = - 1"
  by (auto simp: slot_id_def live_slot_def split: option.splits)

text \<open>What \<^verbatim>\<open>to_json\<close> writes: it never fails; each slot gets \<open>slot_id\<close>, that is -1 for an
  empty or erasing slot and the landmark's id read as an \<^verbatim>\<open>int\<close> otherwise; the parent id is
  the parent's id, or \<open>2 ^ 32 - 1\<close> when there is no parent, and so never negative.\<close>

lemma to_json_result:
  "\<exists>j. to_json ifc w kf = Inr j \<and>
       length (json_lm_ids j) = length (landmarks kf) \<and>
       (\<forall>i < length (landmarks kf). json_lm_ids j ! i = slot_id ifc w (landmarks kf ! i)) \<and>
       json_span_parent j =
         (case gn_get_spanning_parent ifc w (kf_id kf) of
            Some p \<Rightarrow> uint p | None \<Rightarrow> 4294967295) \<and>
       0 \<le> json_span_parent j"
proof -
  let ?lms = "landmarks kf"
  let ?init = "replicate (length ?lms) (- 1 :: int)"
  have "\<forall>i \<in> set [0..<length ?init]. i < length ?lms" by simp
  moreover have "length ?init = length ?lms" by simp
  ultimately obtain ids where
    ids: "landmark_ids_loop ifc w ?lms [0..<length ?init] ?init = Inr ids"
      "length ids = length ?lms"
      "\<forall>j < length ?lms. ids ! j =
              (if j \<in> set [0..<length ?init] \<and> live_slot ifc w (?lms ! j)
               then slot_id ifc w (?lms ! j) else ?init ! j)"
    using landmark_ids_loop_result [of "[0..<length ?init]" ?lms ?init ifc w] by blast
  have each: "ids ! i = slot_id ifc w (?lms ! i)" if "i < length ?lms" for i
    using ids(3) that by (auto simp: slot_id_dead)
  define j where "j = \<lparr>json_ts = timestamp kf,
             json_rot_cw = block33 (pose_cw kf),
             json_trans_cw = block31 (pose_cw kf),
             json_n_keypts = num_keypts (frm_obs kf),
             json_lm_ids = ids,
             json_span_parent =
               uint (case gn_get_spanning_parent ifc w (kf_id kf) of
                       Some p \<Rightarrow> p | None \<Rightarrow> (- 1 :: 32 word)),
             json_span_children = map sint (gn_get_spanning_children ifc w (kf_id kf)),
             json_loop_edges = map sint (gn_get_loop_edges ifc w (kf_id kf))\<rparr>"
  have run: "to_json ifc w kf = Inr j"
    using ids(1) by (simp add: to_json_def Let_def j_def)
  have lm_ids: "json_lm_ids j = ids"
    by (simp add: j_def)
  have parent: "json_span_parent j =
         (case gn_get_spanning_parent ifc w (kf_id kf) of
            Some p \<Rightarrow> uint p | None \<Rightarrow> 4294967295)"
    by (simp add: j_def uint_minus_one_32 split: option.splits)
  have nonneg: "0 \<le> json_span_parent j"
    by (simp add: j_def)
  show ?thesis
  proof (intro exI [of _ j] conjI allI impI)
    show "to_json ifc w kf = Inr j" by (rule run)
    show "length (json_lm_ids j) = length (landmarks kf)" by (simp add: lm_ids ids(2))
    show "json_span_parent j =
         (case gn_get_spanning_parent ifc w (kf_id kf) of
            Some p \<Rightarrow> uint p | None \<Rightarrow> 4294967295)" by (rule parent)
    show "0 \<le> json_span_parent j" by (rule nonneg)
  next
    fix i assume "i < length (landmarks kf)"
    then show "json_lm_ids j ! i = slot_id ifc w (landmarks kf ! i)"
      by (simp add: lm_ids each)
  qed
qed

lemma list_of_four: "length xs = 4 \<Longrightarrow> xs = [xs ! 0, xs ! 1, xs ! 2, xs ! 3]"
  by (auto simp: numeral_eq_Suc length_Suc_conv)

text \<open>
  Claim C9 says that the parent id in the record is -1 exactly when the node has no spanning
  parent, and that a slot's landmark id is -1 exactly when the slot is empty or its landmark
  is being erased. The code differs on both counts. For a keyframe without a spanning parent
  the conditional \<^verbatim>\<open>spanning_parent ? spanning_parent->id_ : -1\<close> is unsigned, so the record
  holds 4294967295, not -1. And the landmark id is narrowed to \<^verbatim>\<open>int\<close>: the landmark with
  id 4294967295 in slot 3 below is not being erased, and its slot reads -1 like the empty
  slot 1 and the erasing slot 2.
\<close>

theorem to_json_root_parent_is_unsigned:
  "gn_get_spanning_parent recording (quiet_world\<lparr>rec_erasing := [8]\<rparr>)
     (kf_id (sample_keyframe 4 [Some 7, None, Some 8, Some 4294967195])) = None \<and>
   \<not> lm_will_be_erased recording (quiet_world\<lparr>rec_erasing := [8]\<rparr>) 4294967195 \<and>
   lm_id recording (quiet_world\<lparr>rec_erasing := [8]\<rparr>) 4294967195 = 4294967295 \<and>
   (\<exists>j. to_json recording (quiet_world\<lparr>rec_erasing := [8]\<rparr>)
          (sample_keyframe 4 [Some 7, None, Some 8, Some 4294967195]) = Inr j \<and>
        json_span_parent j = 4294967295 \<and>
        json_lm_ids j = [107, - 1, - 1, - 1])"
proof -
  let ?W = "quiet_world\<lparr>rec_erasing := [8]\<rparr>"
  let ?K = "sample_keyframe 4 [Some 7, None, Some 8, Some 4294967195]"
  have lms: "landmarks ?K = [Some 7, None, Some 8, Some 4294967195]"
    by (simp add: sample_keyframe_def)
  have root: "gn_get_spanning_parent recording ?W (kf_id ?K) = None"
    by (simp add: recording_def quiet_world_def)
  have live: "\<not> lm_will_be_erased recording ?W 4294967195"
    by (simp add: recording_def quiet_world_def)
  have big: "lm_id recording ?W 4294967195 = 4294967295"
    by (simp add: recording_def)
  have s0: "slot_id recording ?W (Some 7) = 107"
    and s1: "slot_id recording ?W None = - 1"
    and s2: "slot_id recording ?W (Some 8) = - 1"
    by (simp_all add: slot_id_def recording_def quiet_world_def)
  have s3: "slot_id recording ?W (Some 4294967195) = - 1"
    using live big by (simp add: slot_id_def)
  from to_json_result [of recording ?W ?K] obtain j where
    j: "to_json recording ?W ?K = Inr j \<and>
       length (json_lm_ids j) = length (landmarks ?K) \<and>
       (\<forall>i < length (landmarks ?K). json_lm_ids j ! i = slot_id recording ?W (landmarks ?K ! i)) \<and>
       json_span_parent j =
         (case gn_get_spanning_parent recording ?W (kf_id ?K) of
            Some p \<Rightarrow> uint p | None \<Rightarrow> 4294967295) \<and>
       0 \<le> json_span_parent j" ..
  note run = j [THEN conjunct1]
    and len = j [THEN conjunct2, THEN conjunct1]
    and slots = j [THEN conjunct2, THEN conjunct2, THEN conjunct1]
    and parent = j [THEN conjunct2, THEN conjunct2, THEN conjunct2, THEN conjunct1]
  have l4: "length (json_lm_ids j) = 4" using len by (simp add: lms)
  have e0: "json_lm_ids j ! 0 = 107"
    using slots [rule_format, of 0] s0 by (simp add: lms)
  have e1: "json_lm_ids j ! 1 = - 1"
    using slots [rule_format, of 1] s1 by (simp add: lms)
  have e2: "json_lm_ids j ! 2 = - 1"
    using slots [rule_format, of 2] s2 by (simp add: lms)
  have e3: "json_lm_ids j ! 3 = - 1"
    using slots [rule_format, of 3] s3 by (simp add: lms)
  have "json_lm_ids j = [json_lm_ids j ! 0, json_lm_ids j ! 1, json_lm_ids j ! 2, json_lm_ids j ! 3]"
    using l4 by (rule list_of_four)
  then have ids: "json_lm_ids j = [107, - 1, - 1, - 1]"
    by (simp only: e0 e1 e2 e3)
  have "json_span_parent j = 4294967295"
    using parent root by simp
  with run ids have "\<exists>j. to_json recording ?W ?K = Inr j \<and>
        json_span_parent j = 4294967295 \<and> json_lm_ids j = [107, - 1, - 1, - 1]"
    by blast
  with root live big show ?thesis by blast
qed

end
